theory Spec2Isabelle
  imports Main
begin

section \<open>Response middleware of apps/common/middleware.py\<close>

text \<open>
  The module holds five middleware classes, each with one method
  \<^verbatim>\<open>process_response(self, request, response)\<close>, and the context manager
  \<^verbatim>\<open>safe_query_string\<close>. The handlers are embedded as functions of the request and the
  response. What they use of the web framework (URL resolution, \<^verbatim>\<open>iri_to_uri\<close>) is a
  parameter, the three ORM models are tables of a database value, exceptions are values
  of \<open>error\<close>, and the mutation of \<^verbatim>\<open>request.META\<close> is explicit: a handler
  returns the request as it leaves it.
\<close>

subsection \<open>Strings\<close>

text \<open>\<^verbatim>\<open>s.startswith(p)\<close>, \<^verbatim>\<open>s.endswith(p)\<close> and \<^verbatim>\<open>s.strip(chars)\<close> of Python.
  The slices \<^verbatim>\<open>s[1:]\<close> and \<^verbatim>\<open>s[:-1]\<close> are \<open>drop 1 s\<close> and \<open>butlast s\<close>:
  both give the empty string on the empty string, as the slices do.\<close>

definition startswith :: "string \<Rightarrow> string \<Rightarrow> bool" where
  "startswith s p = (take (length p) s = p)"

definition endswith :: "string \<Rightarrow> string \<Rightarrow> bool" where
  "endswith s p = (length p \<le> length s \<and> drop (length s - length p) s = p)"

definition strip :: "string \<Rightarrow> string \<Rightarrow> string" where
  "strip s chars =
     rev (dropWhile (\<lambda>c. c \<in> set chars) (rev (dropWhile (\<lambda>c. c \<in> set chars) s)))"

text \<open>The comparison of the \<^verbatim>\<open>iexact\<close> lookup: equality after folding the ASCII
  capitals to small letters.\<close>

definition lower_char :: "char \<Rightarrow> char" where
  "lower_char c =
     (case map_of (zip ''ABCDEFGHIJKLMNOPQRSTUVWXYZ'' ''abcdefghijklmnopqrstuvwxyz'') c of
        None \<Rightarrow> c
      | Some l \<Rightarrow> l)"

definition iexact :: "string \<Rightarrow> string \<Rightarrow> bool" where
  "iexact a b = (map lower_char a = map lower_char b)"

subsection \<open>Requests, responses, errors\<close>

datatype error = KeyError | NoReverseMatch | DoesNotExist | MultipleObjectsReturned

datatype request_user = AnonymousUser | AuthenticatedUser string

fun is_authenticated :: "request_user \<Rightarrow> bool" where
  "is_authenticated AnonymousUser = False"
| "is_authenticated (AuthenticatedUser _) = True"

text \<open>The attributes of the request that the module reads: \<^verbatim>\<open>path\<close>,
  \<^verbatim>\<open>path_info\<close> (the two differ: the locale prefix is cut from
  \<^verbatim>\<open>path_info\<close>), the parsed query \<^verbatim>\<open>GET\<close>, the dictionary \<^verbatim>\<open>META\<close>
  and \<^verbatim>\<open>user\<close>.\<close>

record request =
  path :: string
  path_info :: string
  GET :: "(string \<times> string) list"
  META :: "string \<rightharpoonup> string"
  user :: request_user

text \<open>The class of a response object, which \<^verbatim>\<open>isinstance\<close> tests, and the
  attributes of it that matter here. \<open>redirect_to\<close> is the URL a redirect class was
  constructed with; \<open>template\<close> is the number of the error template an error page was
  rendered from.\<close>

datatype response_class =
    HttpResponse_class
  | HttpResponseNotFound_class
  | HttpResponseForbidden_class
  | HttpResponseNotAllowed_class
  | HttpResponseRedirect_class
  | HttpResponsePermanentRedirect_class

record response =
  resp_class :: response_class
  status_code :: int
  redirect_to :: "string option"
  template :: "int option"
  content :: string

text \<open>Django's two redirect classes: status 302 and 301.\<close>

definition HttpResponseRedirect :: "string \<Rightarrow> response" where
  "HttpResponseRedirect url =
     \<lparr>resp_class = HttpResponseRedirect_class, status_code = 302,
      redirect_to = Some url, template = None, content = []\<rparr>"

definition HttpResponsePermanentRedirect :: "string \<Rightarrow> response" where
  "HttpResponsePermanentRedirect url =
     \<lparr>resp_class = HttpResponsePermanentRedirect_class, status_code = 301,
      redirect_to = Some url, template = None, content = []\<rparr>"

text \<open>Modelled from the spec: \<^verbatim>\<open>error_page\<close> is imported from the project's
  \<^verbatim>\<open>urls\<close> module, which is not among the sources. The specification calls its result
  a generic error page and says that the framework's HTTP status codes are passed
  through: the page is rendered from the numbered template and carries the status it was
  given. The handler passes it the whole request, \<^verbatim>\<open>request.user\<close> included, and
  neither the specification nor the sources say what the page shows of that request: the
  text the template is rendered to, for a request, is the parameter \<open>render\<close>.\<close>

definition error_page ::
  "(request \<Rightarrow> int \<Rightarrow> string) \<Rightarrow> request \<Rightarrow> int \<Rightarrow> int \<Rightarrow> response" where
  "error_page render request tmpl status =
     \<lparr>resp_class = HttpResponse_class, status_code = status,
      redirect_to = None, template = Some tmpl, content = render request tmpl\<rparr>"

subsection \<open>PermissionDeniedMiddleware\<close>

text \<open>The handler returns the response and the lines it sent to \<^verbatim>\<open>log.debug\<close>.
  \<open>render\<close> is the rendering that \<open>error_page\<close> uses.\<close>

definition PermissionDeniedMiddleware_process_response ::
  "(request \<Rightarrow> int \<Rightarrow> string) \<Rightarrow> request \<Rightarrow> response \<Rightarrow> response \<times> string list" where
  "PermissionDeniedMiddleware_process_response render request response =
     (if resp_class response = HttpResponseForbidden_class
         \<or> resp_class response = HttpResponseNotAllowed_class
      then
        (error_page render request 500 (status_code response),
         (if is_authenticated (user request)
          then [''Permission denied middleware, user was authenticated, sending 500'']
          else if resp_class response = HttpResponseForbidden_class
          then [''Response was forbidden'']
          else if resp_class response = HttpResponseNotAllowed_class
          then [''Response was not allowed'']
          else []))
      else (response, []))"

subsection \<open>The framework and the database\<close>

text \<open>What the handlers call of the framework and of the project's URL configuration:
  \<^verbatim>\<open>is_valid_path(path)\<close>, \<^verbatim>\<open>reverse(viewname, args=[...])\<close>, which raises
  NoReverseMatch when no pattern fits, and \<^verbatim>\<open>iri_to_uri\<close>.\<close>

record framework =
  is_valid_path :: "string \<Rightarrow> bool"
  reverse :: "string \<Rightarrow> string list \<Rightarrow> error + string"
  iri_to_uri :: "string \<Rightarrow> string"

text \<open>The rows of \<^verbatim>\<open>User\<close>, \<^verbatim>\<open>Group\<close> and \<^verbatim>\<open>GroupAlias\<close>, with the columns the
  handlers read. \<open>group_url\<close> and \<open>alias_url\<close> are the column \<^verbatim>\<open>url\<close> of
  \<^verbatim>\<open>Group\<close> and of \<^verbatim>\<open>GroupAlias\<close>; \<open>alias\<close> is the group that the foreign key
  \<^verbatim>\<open>GroupAlias.alias\<close> refers to.\<close>

record user_row =
  username :: string

record "group" =
  group_name :: string
  group_url :: string

record group_alias =
  alias_name :: string
  alias_url :: string
  "alias" :: "group"

record db =
  User_objects :: "user_row list"
  Group_objects :: "group list"
  GroupAlias_objects :: "group_alias list"

text \<open>The query sets the handlers build with \<^verbatim>\<open>objects.filter(...)\<close>: the rows of
  the table that pass the lookup.\<close>

definition User_objects_filter_username_iexact :: "string \<Rightarrow> db \<Rightarrow> user_row list" where
  "User_objects_filter_username_iexact v d =
     filter (\<lambda>u. iexact (username u) v) (User_objects d)"

definition Group_objects_filter_url :: "string \<Rightarrow> db \<Rightarrow> group list" where
  "Group_objects_filter_url v d = filter (\<lambda>g. group_url g = v) (Group_objects d)"

definition GroupAlias_objects_filter_url :: "string \<Rightarrow> db \<Rightarrow> group_alias list" where
  "GroupAlias_objects_filter_url v d =
     filter (\<lambda>a. alias_url a = v) (GroupAlias_objects d)"

text \<open>The two queries that are run: \<^verbatim>\<open>.exists()\<close>, and \<^verbatim>\<open>objects.get(...)\<close>, which
  raises when it finds no row or more than one. Each takes the database and returns it
  with its answer.\<close>

definition qs_exists :: "(db \<Rightarrow> 'row list) \<Rightarrow> db \<Rightarrow> bool \<times> db" where
  "qs_exists q d = (q d \<noteq> [], d)"

definition qs_get :: "(db \<Rightarrow> 'row list) \<Rightarrow> db \<Rightarrow> (error + 'row) \<times> db" where
  "qs_get q d =
     (case q d of
        [] \<Rightarrow> (Inl DoesNotExist, d)
      | [x] \<Rightarrow> (Inr x, d)
      | _ \<Rightarrow> (Inl MultipleObjectsReturned, d))"

subsection \<open>safe\_query\_string\<close>

text \<open>The context manager, applied to the block it guards. The block is a function of
  the request: it returns a value or raises, and leaves a request. The lookup of
  \<^verbatim>\<open>qs\<close> stands before the \<^verbatim>\<open>try\<close>, so a missing key raises KeyError and the block
  does not run; otherwise the \<^verbatim>\<open>finally\<close> clause stores \<^verbatim>\<open>qs\<close> again, however the
  block ended.\<close>

definition safe_query_string ::
  "framework \<Rightarrow> request \<Rightarrow> (request \<Rightarrow> (error + 'a) \<times> request)
     \<Rightarrow> (error + 'a) \<times> request" where
  "safe_query_string fw request block =
     (case META request ''QUERY_STRING'' of
        None \<Rightarrow> (Inl KeyError, request)
      | Some qs \<Rightarrow>
          (case block (request\<lparr>META := (META request)(''QUERY_STRING'' \<mapsto> iri_to_uri fw qs)\<rparr>) of
             (r, request') \<Rightarrow>
               (r, request'\<lparr>META := (META request')(''QUERY_STRING'' \<mapsto> qs)\<rparr>)))"

text \<open>The block of every \<^verbatim>\<open>with safe_query_string(request)\<close> in the module:
  \<^verbatim>\<open>newurl += '?' + request.META['QUERY_STRING']\<close>.\<close>

definition add_query_string :: "string \<Rightarrow> request \<Rightarrow> (error + string) \<times> request" where
  "add_query_string newurl request =
     (case META request ''QUERY_STRING'' of
        None \<Rightarrow> (Inl KeyError, request)
      | Some q \<Rightarrow> (Inr (newurl @ ''?'' @ q), request))"

subsection \<open>RemoveSlashMiddleware\<close>

definition RemoveSlashMiddleware_process_response ::
  "framework \<Rightarrow> request \<Rightarrow> response \<Rightarrow> (error + response) \<times> request" where
  "RemoveSlashMiddleware_process_response fw request response =
     (if status_code response = 404
         \<and> endswith (path_info request) ''/''
         \<and> \<not> is_valid_path fw (path_info request)
         \<and> is_valid_path fw (butlast (path_info request))
      then
        (let newurl = butlast (path request) in
         if GET request \<noteq> []
         then (case safe_query_string fw request (add_query_string newurl) of
                 (Inl e, request') \<Rightarrow> (Inl e, request')
               | (Inr newurl', request') \<Rightarrow>
                   (Inr (HttpResponsePermanentRedirect newurl'), request'))
         else (Inr (HttpResponsePermanentRedirect newurl), request))
      else (Inr response, request))"

subsection \<open>UsernameRedirectionMiddleware\<close>

definition UsernameRedirectionMiddleware_process_response ::
  "framework \<Rightarrow> db \<Rightarrow> request \<Rightarrow> response \<Rightarrow> (error + response) \<times> request \<times> db" where
  "UsernameRedirectionMiddleware_process_response fw d request response =
     (if status_code response = 404
         \<and> \<not> startswith (path_info request) ''/u/''
         \<and> \<not> is_valid_path fw (path_info request)
      then
        (case qs_exists (User_objects_filter_username_iexact
                           (strip (drop 1 (path_info request)) ''/'')) d of
           (False, d') \<Rightarrow> (Inr response, request, d')
         | (True, d') \<Rightarrow>
             (let newurl = ''/u'' @ path_info request in
              if GET request \<noteq> []
              then (case safe_query_string fw request (add_query_string newurl) of
                      (Inl e, request') \<Rightarrow> (Inl e, request', d')
                    | (Inr newurl', request') \<Rightarrow>
                        (Inr (HttpResponseRedirect newurl'), request', d'))
              else (Inr (HttpResponseRedirect newurl), request, d')))
      else (Inr response, request, d))"

subsection \<open>OldGroupRedirectionMiddleware\<close>

definition isdigit :: "char \<Rightarrow> bool" where
  "isdigit c = (c \<in> set ''0123456789'')"

text \<open>\<^verbatim>\<open>re.match('^/group/(?P<id>\d+)-(?P<url>[^/]+)$', s)\<close>: the groups \<^verbatim>\<open>id\<close> and
  \<^verbatim>\<open>url\<close> of the match, or None. After the prefix, \<^verbatim>\<open>\d+\<close> takes the digits
  that follow (a shorter run would be followed by a digit, not by the hyphen), and
  \<^verbatim>\<open>[^/]+\<close> has to take all the rest: it stops only at a slash, where \<^verbatim>\<open>$\<close> fails.\<close>

definition match_old_group :: "string \<Rightarrow> (string \<times> string) option" where
  "match_old_group s =
     (if startswith s ''/group/''
      then
        (case dropWhile isdigit (drop 7 s) of
           [] \<Rightarrow> None
         | c # u \<Rightarrow>
             (if takeWhile isdigit (drop 7 s) \<noteq> [] \<and> c = CHR ''-''
                 \<and> u \<noteq> [] \<and> CHR ''/'' \<notin> set u
              then Some (takeWhile isdigit (drop 7 s), u) else None))
      else None)"

definition OldGroupRedirectionMiddleware_process_response ::
  "framework \<Rightarrow> db \<Rightarrow> request \<Rightarrow> response \<Rightarrow> (error + response) \<times> request \<times> db" where
  "OldGroupRedirectionMiddleware_process_response fw d request response =
     (case match_old_group (path_info request) of
        None \<Rightarrow> (Inr response, request, d)
      | Some (gid, gurl) \<Rightarrow>
          (if status_code response = 404
           then
             (case qs_exists (Group_objects_filter_url gurl) d of
                (False, d') \<Rightarrow> (Inr response, request, d')
              | (True, d') \<Rightarrow>
                  (case reverse fw ''group'' [gurl] of
                     Inl e \<Rightarrow> (Inl e, request, d')
                   | Inr newurl \<Rightarrow>
                       (if GET request \<noteq> []
                        then (case safe_query_string fw request (add_query_string newurl) of
                                (Inl e, request') \<Rightarrow> (Inl e, request', d')
                              | (Inr newurl', request') \<Rightarrow>
                                  (Inr (HttpResponseRedirect newurl'), request', d'))
                        else (Inr (HttpResponseRedirect newurl), request, d'))))
           else (Inr response, request, d)))"

subsection \<open>GroupAliasRedirectionMiddleware\<close>

text \<open>\<^verbatim>\<open>re.match('^/group/(?P<url>[^/]+)$', s)\<close>: the group \<^verbatim>\<open>url\<close> of the match, or
  None.\<close>

definition match_group :: "string \<Rightarrow> string option" where
  "match_group s =
     (if startswith s ''/group/'' \<and> drop 7 s \<noteq> [] \<and> CHR ''/'' \<notin> set (drop 7 s)
      then Some (drop 7 s) else None)"

definition GroupAliasRedirectionMiddleware_process_response ::
  "framework \<Rightarrow> db \<Rightarrow> request \<Rightarrow> response \<Rightarrow> (error + response) \<times> request \<times> db" where
  "GroupAliasRedirectionMiddleware_process_response fw d request response =
     (case match_group (path_info request) of
        None \<Rightarrow> (Inr response, request, d)
      | Some gurl \<Rightarrow>
          (if status_code response = 404
           then
             (case qs_exists (GroupAlias_objects_filter_url gurl) d of
                (False, d') \<Rightarrow> (Inr response, request, d')
              | (True, d') \<Rightarrow>
                  (case qs_get (GroupAlias_objects_filter_url gurl) d' of
                     (Inl e, d'') \<Rightarrow> (Inl e, request, d'')
                   | (Inr group_alias, d'') \<Rightarrow>
                       (case reverse fw ''group'' [group_url (alias group_alias)] of
                          Inl e \<Rightarrow> (Inl e, request, d'')
                        | Inr newurl \<Rightarrow>
                            (if GET request \<noteq> []
                             then (case safe_query_string fw request
                                          (add_query_string newurl) of
                                     (Inl e, request') \<Rightarrow> (Inl e, request', d'')
                                   | (Inr newurl', request') \<Rightarrow>
                                       (Inr (HttpResponseRedirect newurl'), request', d''))
                             else (Inr (HttpResponseRedirect newurl), request, d'')))))
           else (Inr response, request, d)))"

subsection \<open>Example inputs\<close>

text \<open>A framework whose only valid path is \<^verbatim>\<open>/about\<close>, whose URL configuration
  resolves the view \<^verbatim>\<open>group\<close> to \<^verbatim>\<open>/group/<url>/\<close> and whose \<^verbatim>\<open>iri_to_uri\<close>
  escapes the space; requests with and without a query; responses of three classes; a
  database with one row in each table, and one with two aliases of the same url; a
  rendering of the error templates that shows whether the user is signed in.\<close>

definition example_framework :: framework where
  "example_framework =
     \<lparr>is_valid_path = (\<lambda>p. p = ''/about''),
      reverse = (\<lambda>viewname args.
        if viewname = ''group''
        then (case args of [u] \<Rightarrow> Inr (''/group/'' @ u @ ''/'') | _ \<Rightarrow> Inl NoReverseMatch)
        else Inl NoReverseMatch),
      iri_to_uri = (\<lambda>s. concat (map (\<lambda>c. if c = CHR '' '' then ''%20'' else [c]) s))\<rparr>"

definition example_request :: "string \<Rightarrow> string \<Rightarrow> request" where
  "example_request prefix p =
     \<lparr>path = prefix @ p, path_info = p, GET = [(''q'', ''a b'')],
      META = [''QUERY_STRING'' \<mapsto> ''q=a b''], user = AnonymousUser\<rparr>"

definition not_found :: response where
  "not_found =
     \<lparr>resp_class = HttpResponseNotFound_class, status_code = 404,
      redirect_to = None, template = None, content = []\<rparr>"

definition example_db :: db where
  "example_db =
     \<lparr>User_objects = [\<lparr>username = ''Alice''\<rparr>],
      Group_objects = [\<lparr>group_name = ''Web Dev'', group_url = ''webdev''\<rparr>],
      GroupAlias_objects =
        [\<lparr>alias_name = ''Web'', alias_url = ''web'',
          alias = \<lparr>group_name = ''Web Dev'', group_url = ''webdev''\<rparr>\<rparr>]\<rparr>"

definition plain_request :: "string \<Rightarrow> string \<Rightarrow> request" where
  "plain_request prefix p =
     \<lparr>path = prefix @ p, path_info = p, GET = [],
      META = [''QUERY_STRING'' \<mapsto> []], user = AnonymousUser\<rparr>"

definition example_render :: "request \<Rightarrow> int \<Rightarrow> string" where
  "example_render r tmpl =
     (if is_authenticated (user r) then ''Error. Signed in.'' else ''Error.'')"


definition forbidden :: response where
  "forbidden =
     \<lparr>resp_class = HttpResponseForbidden_class, status_code = 403,
      redirect_to = None, template = None, content = ''no''\<rparr>"

definition not_allowed :: response where
  "not_allowed =
     \<lparr>resp_class = HttpResponseNotAllowed_class, status_code = 405,
      redirect_to = None, template = None, content = ''no''\<rparr>"

section \<open>Properties\<close>

subsection \<open>Strings and patterns\<close>

lemma safe_query_string_add:
  assumes "META request ''QUERY_STRING'' = Some qs"
  shows "safe_query_string fw request (add_query_string newurl) =
           (Inr (newurl @ ''?'' @ iri_to_uri fw qs), request)"
proof -
  have "(META request)(''QUERY_STRING'' \<mapsto> qs) = META request"
    using assms by (rule map_upd_triv)
  then show ?thesis
    using assms by (simp add: safe_query_string_def add_query_string_def)
qed

lemma filter_exists_conv: "(filter P xs \<noteq> []) = (\<exists>x\<in>set xs. P x)"
  by (simp add: filter_empty_conv)

lemma startswith_append: "startswith s p = (\<exists>r. s = p @ r)"
  unfolding startswith_def
  by (metis append_eq_conv_conj append_take_drop_id)

lemma endswith_append: "endswith s p = (\<exists>r. s = r @ p)"
  unfolding endswith_def
  by (metis append_eq_conv_conj append_take_drop_id diff_add_inverse2 length_append length_drop le_add2)

lemma endswith_slash: "endswith s ''/'' = (s \<noteq> [] \<and> last s = CHR ''/'')"
  by (auto simp: endswith_append) (metis append_butlast_last_id)


lemma startswith_drop: "startswith s p \<Longrightarrow> s = p @ drop (length p) s"
  unfolding startswith_def by (metis append_take_drop_id)

lemma startswith_group: "startswith s ''/group/'' \<Longrightarrow> s = ''/group/'' @ drop 7 s"
  using startswith_drop [of s "''/group/''"] by (simp add: eval_nat_numeral)

lemma dropWhile_all: "\<forall>c\<in>set s. P c \<Longrightarrow> dropWhile P s = []"
  by (induction s) auto

lemma strip_not_endswith: "\<not> endswith (strip s ''/'') ''/''"
proof -
  let ?P = "\<lambda>c. c \<in> set ''/''"
  let ?ys = "dropWhile ?P (rev (dropWhile ?P s))"
  have "?ys \<noteq> [] \<Longrightarrow> hd ?ys \<noteq> CHR ''/''"
    using hd_dropWhile [of ?P "rev (dropWhile ?P s)"] by simp
  then show ?thesis
    by (auto simp: endswith_slash strip_def last_rev)
qed

lemma strip_snoc_slash: "strip (s @ ''/'') ''/'' = strip s ''/''"
proof (cases "\<forall>c\<in>set s. c = CHR ''/''")
  case True
  then have "\<forall>c\<in>set (s @ ''/''). c \<in> set ''/''" and "\<forall>c\<in>set s. c \<in> set ''/''"
    by simp_all
  then have e: "dropWhile (\<lambda>c. c \<in> set ''/'') (s @ ''/'') = []"
    "dropWhile (\<lambda>c. c \<in> set ''/'') s = []"
    by (simp_all only: dropWhile_all)
  show ?thesis by (simp only: strip_def e)
next
  case False
  then obtain x where "x \<in> set s" "x \<noteq> CHR ''/''" by blast
  then have "dropWhile (\<lambda>c. c \<in> set ''/'') (s @ ''/'')
               = dropWhile (\<lambda>c. c \<in> set ''/'') s @ ''/''"
    by (intro dropWhile_append1) simp_all
  then show ?thesis by (simp add: strip_def)
qed

lemma strip_drop_snoc_slash: "strip (drop 1 (p @ ''/'')) ''/'' = strip (drop 1 p) ''/''"
proof (cases p)
  case Nil
  then show ?thesis by (simp add: strip_def)
next
  case (Cons a p')
  then show ?thesis using strip_snoc_slash [of p'] by simp
qed

lemma match_old_group_iff:
  "match_old_group s = Some (i, u) \<longleftrightarrow>
     s = ''/group/'' @ i @ ''-'' @ u \<and> i \<noteq> [] \<and> (\<forall>c\<in>set i. isdigit c)
       \<and> u \<noteq> [] \<and> CHR ''/'' \<notin> set u"
proof
  assume m: "match_old_group s = Some (i, u)"
  let ?r = "drop 7 s"
  from m have sw: "startswith s ''/group/''"
    by (simp add: match_old_group_def split: if_splits)
  then have s: "s = ''/group/'' @ ?r"
    by (rule startswith_group)
  from m sw obtain c where d: "dropWhile isdigit ?r = c # u"
    by (auto simp: match_old_group_def split: list.splits if_splits)
  from m sw d have f: "takeWhile isdigit ?r = i" "i \<noteq> []" "c = CHR ''-''" "u \<noteq> []"
    "CHR ''/'' \<notin> set u"
    by (auto simp: match_old_group_def split: if_splits)
  have "?r = i @ ''-'' @ u"
    using takeWhile_dropWhile_id [of isdigit ?r] d f by simp
  moreover have "\<forall>c\<in>set i. isdigit c"
    using f(1) set_takeWhileD by fastforce
  ultimately show "s = ''/group/'' @ i @ ''-'' @ u \<and> i \<noteq> [] \<and> (\<forall>c\<in>set i. isdigit c)
       \<and> u \<noteq> [] \<and> CHR ''/'' \<notin> set u"
    using s f by simp
next
  assume a: "s = ''/group/'' @ i @ ''-'' @ u \<and> i \<noteq> [] \<and> (\<forall>c\<in>set i. isdigit c)
       \<and> u \<noteq> [] \<and> CHR ''/'' \<notin> set u"
  have nd: "\<not> isdigit CHR ''-''" by (simp add: isdigit_def)
  from a have r: "drop 7 s = i @ CHR ''-'' # u" by simp
  have t: "takeWhile isdigit (i @ CHR ''-'' # u) = i"
    using a nd by (simp add: takeWhile_append2)
  have d: "dropWhile isdigit (i @ CHR ''-'' # u) = CHR ''-'' # u"
    using a nd by (simp add: dropWhile_append2)
  have sw: "startswith s ''/group/''" using a by (simp add: startswith_def)
  have "match_old_group s =
          (if i \<noteq> [] \<and> CHR ''-'' = CHR ''-'' \<and> u \<noteq> [] \<and> CHR ''/'' \<notin> set u
           then Some (i, u) else None)"
    unfolding match_old_group_def r t d using sw by (simp only: if_True list.case)
  then show "match_old_group s = Some (i, u)"
    using a by simp
qed


lemma add_query_string_result:
  assumes "GET request \<noteq> [] \<longrightarrow> META request ''QUERY_STRING'' = Some qs"
    and "GET request \<noteq> []"
  shows "safe_query_string fw request (add_query_string newurl) =
           (Inr (newurl @ ''?'' @ iri_to_uri fw qs), request)"
  using assms by (simp add: safe_query_string_add)

lemma username_redirect_eq:
  assumes "GET request \<noteq> [] \<longrightarrow> META request ''QUERY_STRING'' = Some qs"
  shows "UsernameRedirectionMiddleware_process_response fw d request response =
           (if status_code response = 404
               \<and> \<not> startswith (path_info request) ''/u/''
               \<and> \<not> is_valid_path fw (path_info request)
               \<and> (\<exists>u\<in>set (User_objects d).
                     iexact (username u) (strip (drop 1 (path_info request)) ''/''))
            then (Inr (HttpResponseRedirect
                         (''/u'' @ path_info request
                            @ (if GET request \<noteq> [] then ''?'' @ iri_to_uri fw qs else []))),
                  request, d)
            else (Inr response, request, d))"
proof (cases "GET request = []")
  case True
  then show ?thesis
    by (simp add: UsernameRedirectionMiddleware_process_response_def qs_exists_def
        User_objects_filter_username_iexact_def filter_exists_conv del: append.simps)
next
  case False
  with assms show ?thesis
    by (simp add: UsernameRedirectionMiddleware_process_response_def qs_exists_def
        User_objects_filter_username_iexact_def filter_exists_conv add_query_string_result
        del: append.simps)
qed

lemma old_group_redirects:
  assumes q: "GET request \<noteq> [] \<longrightarrow> META request ''QUERY_STRING'' = Some qs"
    and m: "match_old_group (path_info request) = Some (gid, gurl)"
    and st: "status_code response = 404"
    and g: "\<exists>g\<in>set (Group_objects d). group_url g = gurl"
    and r: "reverse fw ''group'' [gurl] = Inr canonical"
  shows "OldGroupRedirectionMiddleware_process_response fw d request response =
           (Inr (HttpResponseRedirect
                   (canonical @ (if GET request \<noteq> [] then ''?'' @ iri_to_uri fw qs else []))),
            request, d)"
proof (cases "GET request = []")
  case True
  with m st g r show ?thesis
    by (simp add: OldGroupRedirectionMiddleware_process_response_def qs_exists_def
        Group_objects_filter_url_def filter_exists_conv)
next
  case False
  with q m st g r show ?thesis
    by (simp add: OldGroupRedirectionMiddleware_process_response_def qs_exists_def
        Group_objects_filter_url_def filter_exists_conv add_query_string_result)
qed

lemma old_group_passes:
  assumes "\<not> (status_code response = 404
              \<and> (\<exists>gid gurl. match_old_group (path_info request) = Some (gid, gurl)
                    \<and> (\<exists>g\<in>set (Group_objects d). group_url g = gurl)))"
  shows "OldGroupRedirectionMiddleware_process_response fw d request response =
           (Inr response, request, d)"
  using assms
  by (auto simp: OldGroupRedirectionMiddleware_process_response_def qs_exists_def
      Group_objects_filter_url_def filter_exists_conv split: option.splits)



subsection \<open>Where a handler raises\<close>

text \<open>The redirect branches raise in three cases: \<^verbatim>\<open>request.GET\<close> is not empty and \<^verbatim>\<open>request.META\<close> has no
  \<^verbatim>\<open>QUERY_STRING\<close> (KeyError), \<^verbatim>\<open>reverse\<close> finds no pattern (NoReverseMatch), and
  \<^verbatim>\<open>GroupAlias.objects.get\<close> finds two aliases with the url
  (MultipleObjectsReturned).\<close>

lemma safe_query_string_missing_key:
  "META request ''QUERY_STRING'' = None \<Longrightarrow>
     safe_query_string fw request block = (Inl KeyError, request)"
  by (simp add: safe_query_string_def)

lemma remove_slash_missing_key:
  assumes "status_code response = 404" and "endswith (path_info request) ''/''"
    and "\<not> is_valid_path fw (path_info request)"
    and "is_valid_path fw (butlast (path_info request))"
    and "GET request \<noteq> []" and "META request ''QUERY_STRING'' = None"
  shows "RemoveSlashMiddleware_process_response fw request response = (Inl KeyError, request)"
  using assms
  by (simp add: RemoveSlashMiddleware_process_response_def safe_query_string_missing_key)


lemma old_group_no_reverse_match:
  assumes "status_code response = 404"
    and "match_old_group (path_info request) = Some (gid, gurl)"
    and "\<exists>g\<in>set (Group_objects d). group_url g = gurl"
    and "reverse fw ''group'' [gurl] = Inl e"
  shows "OldGroupRedirectionMiddleware_process_response fw d request response =
           (Inl e, request, d)"
  using assms
  by (simp add: OldGroupRedirectionMiddleware_process_response_def qs_exists_def
      Group_objects_filter_url_def filter_exists_conv)

subsection \<open>PermissionDeniedMiddleware and the user\<close>

text \<open>The handler reads \<^verbatim>\<open>request.user\<close> only to choose the log line, and two
  requests that differ in the user get pages of the same status and the same template.
  But the request goes on to \<open>error_page\<close>: the two pages are the same when the
  rendering is the same for both requests, and differ under a rendering that shows the
  user.\<close>

lemma permission_denied_same_status_and_template:
  "status_code (fst (PermissionDeniedMiddleware_process_response render
                       (request\<lparr>user := u\<rparr>) response))
     = status_code (fst (PermissionDeniedMiddleware_process_response render request response))
   \<and> template (fst (PermissionDeniedMiddleware_process_response render
                       (request\<lparr>user := u\<rparr>) response))
     = template (fst (PermissionDeniedMiddleware_process_response render request response))"
  by (simp add: PermissionDeniedMiddleware_process_response_def error_page_def)

lemma permission_denied_page_follows_render:
  "render (request\<lparr>user := u\<rparr>) 500 = render request 500 \<Longrightarrow>
     fst (PermissionDeniedMiddleware_process_response render (request\<lparr>user := u\<rparr>) response)
       = fst (PermissionDeniedMiddleware_process_response render request response)"
  by (simp add: PermissionDeniedMiddleware_process_response_def error_page_def)

lemma permission_denied_page_may_show_user:
  "fst (PermissionDeniedMiddleware_process_response example_render
          ((plain_request ''/en-US'' ''/edit'')\<lparr>user := AuthenticatedUser ''alice''\<rparr>) forbidden)
     \<noteq> fst (PermissionDeniedMiddleware_process_response example_render
              (plain_request ''/en-US'' ''/edit'') forbidden)"
  by (simp add: PermissionDeniedMiddleware_process_response_def error_page_def
      example_render_def plain_request_def forbidden_def)

lemma permission_denied_log_depends_on_user:
  "snd (PermissionDeniedMiddleware_process_response render
          ((plain_request ''/en-US'' ''/edit'')\<lparr>user := AuthenticatedUser ''alice''\<rparr>) forbidden)
     \<noteq> snd (PermissionDeniedMiddleware_process_response render
              (plain_request ''/en-US'' ''/edit'') forbidden)"
  by (simp add: PermissionDeniedMiddleware_process_response_def plain_request_def
      forbidden_def)

section \<open>The claims\<close>

text \<open>C1: for every request and response, the handler of PermissionDeniedMiddleware
  returns the generic error page when the response is an HttpResponseForbidden or an
  HttpResponseNotAllowed, and the given response, unchanged, for every other
  response.\<close>

theorem permission_denied_response:
  "fst (PermissionDeniedMiddleware_process_response render request response) =
     (if resp_class response = HttpResponseForbidden_class
         \<or> resp_class response = HttpResponseNotAllowed_class
      then error_page render request 500 (status_code response)
      else response)"
  by (simp add: PermissionDeniedMiddleware_process_response_def)

theorem permission_denied_response_witness:
  "fst (PermissionDeniedMiddleware_process_response example_render
          (plain_request ''/en-US'' ''/edit'') forbidden)
     = error_page example_render (plain_request ''/en-US'' ''/edit'') 500 403
   \<and> fst (PermissionDeniedMiddleware_process_response example_render
            (plain_request ''/en-US'' ''/edit'') not_allowed)
     = error_page example_render (plain_request ''/en-US'' ''/edit'') 500 405
   \<and> fst (PermissionDeniedMiddleware_process_response example_render
            (plain_request ''/en-US'' ''/edit'') not_found)
     = not_found"
  using permission_denied_response
      [of example_render "plain_request ''/en-US'' ''/edit''" forbidden]
    permission_denied_response
      [of example_render "plain_request ''/en-US'' ''/edit''" not_allowed]
    permission_denied_response
      [of example_render "plain_request ''/en-US'' ''/edit''" not_found]
  by (simp add: forbidden_def not_allowed_def not_found_def)

text \<open>C2: whenever the handler of PermissionDeniedMiddleware replaces a response by the
  generic error page, the page carries the status code of the original response: 403
  stays 403 and 405 stays 405. The number 500 names the template the page is rendered
  from; it does not replace the status.\<close>

theorem permission_denied_status_code:
  assumes "resp_class response = HttpResponseForbidden_class
             \<or> resp_class response = HttpResponseNotAllowed_class"
  shows "status_code
           (fst (PermissionDeniedMiddleware_process_response render request response))
           = status_code response
         \<and> template
             (fst (PermissionDeniedMiddleware_process_response render request response))
           = Some 500"
  using assms by (auto simp: PermissionDeniedMiddleware_process_response_def error_page_def)

theorem permission_denied_status_code_witness:
  "status_code (fst (PermissionDeniedMiddleware_process_response example_render
                       (plain_request ''/en-US'' ''/edit'') forbidden)) = 403
   \<and> status_code (fst (PermissionDeniedMiddleware_process_response example_render
                       (plain_request ''/en-US'' ''/edit'') not_allowed)) = 405"
  using permission_denied_status_code
      [where response = forbidden and render = example_render
         and request = "plain_request ''/en-US'' ''/edit''"]
    permission_denied_status_code
      [where response = not_allowed and render = example_render
         and request = "plain_request ''/en-US'' ''/edit''"]
  by (simp add: forbidden_def not_allowed_def)

text \<open>C3: for a request with query string \<open>qs\<close> (when it has a query at all), the
  handler of RemoveSlashMiddleware returns a permanent redirect, of status 301, exactly
  when the response has status 404, \<^verbatim>\<open>path_info\<close> ends with a slash and is not a
  valid path, and \<^verbatim>\<open>path_info\<close> without that slash is a valid path. The target is
  \<^verbatim>\<open>request.path[:-1]\<close>, which is \<^verbatim>\<open>request.path\<close> without its trailing slash
  when it ends with one, followed by \<^verbatim>\<open>?\<close> and the query string under
  \<^verbatim>\<open>iri_to_uri\<close> when \<^verbatim>\<open>request.GET\<close> is not empty. In every other case the given
  response is returned. The request is left as it was.\<close>

theorem remove_slash_response:
  assumes "GET request \<noteq> [] \<longrightarrow> META request ''QUERY_STRING'' = Some qs"
  shows "RemoveSlashMiddleware_process_response fw request response =
           (if status_code response = 404
               \<and> endswith (path_info request) ''/''
               \<and> \<not> is_valid_path fw (path_info request)
               \<and> is_valid_path fw (butlast (path_info request))
            then (Inr (HttpResponsePermanentRedirect
                         (butlast (path request)
                            @ (if GET request \<noteq> [] then ''?'' @ iri_to_uri fw qs else []))),
                  request)
            else (Inr response, request))
         \<and> status_code (HttpResponsePermanentRedirect url) = 301
         \<and> (endswith (path request) ''/'' \<longrightarrow> butlast (path request) @ ''/'' = path request)
         \<and> (endswith (path_info request) ''/''
              \<longrightarrow> butlast (path_info request) @ ''/'' = path_info request)"
proof -
  have "endswith s ''/'' \<longrightarrow> butlast s @ ''/'' = s" for s
    by (auto simp: endswith_append)
  moreover have "status_code (HttpResponsePermanentRedirect url) = 301"
    by (simp add: HttpResponsePermanentRedirect_def)
  moreover have "RemoveSlashMiddleware_process_response fw request response =
           (if status_code response = 404
               \<and> endswith (path_info request) ''/''
               \<and> \<not> is_valid_path fw (path_info request)
               \<and> is_valid_path fw (butlast (path_info request))
            then (Inr (HttpResponsePermanentRedirect
                         (butlast (path request)
                            @ (if GET request \<noteq> [] then ''?'' @ iri_to_uri fw qs else []))),
                  request)
            else (Inr response, request))"
  proof (cases "GET request = []")
    case True
    then show ?thesis by (simp add: RemoveSlashMiddleware_process_response_def)
  next
    case False
    with assms show ?thesis
      by (simp add: RemoveSlashMiddleware_process_response_def add_query_string_result)
  qed
  ultimately show ?thesis by blast
qed

theorem remove_slash_response_witness:
  "RemoveSlashMiddleware_process_response example_framework
     (example_request ''/en-US'' ''/about/'') not_found
     = (Inr (HttpResponsePermanentRedirect ''/en-US/about?q=a%20b''),
        example_request ''/en-US'' ''/about/'')
   \<and> RemoveSlashMiddleware_process_response example_framework
     (plain_request ''/en-US'' ''/about/'') not_found
     = (Inr (HttpResponsePermanentRedirect ''/en-US/about''),
        plain_request ''/en-US'' ''/about/'')
   \<and> RemoveSlashMiddleware_process_response example_framework
     (example_request ''/en-US'' ''/contact/'') not_found
     = (Inr not_found, example_request ''/en-US'' ''/contact/'')"
  using remove_slash_response
      [where request = "example_request ''/en-US'' ''/about/''" and qs = "''q=a b''"
         and fw = example_framework and response = not_found]
    remove_slash_response
      [where request = "plain_request ''/en-US'' ''/about/''" and qs = "[]"
         and fw = example_framework and response = not_found]
    remove_slash_response
      [where request = "example_request ''/en-US'' ''/contact/''" and qs = "''q=a b''"
         and fw = example_framework and response = not_found]
  by (simp add: example_request_def plain_request_def example_framework_def not_found_def
      endswith_def)

text \<open>C4: for a request with query string \<open>qs\<close> (when it has a query at all), the
  handler of UsernameRedirectionMiddleware returns a redirect, of status 302, exactly
  when the response has status 404, \<^verbatim>\<open>path_info\<close> does not start with \<^verbatim>\<open>/u/\<close>
  and is not a valid path, and some User has a username equal, letter case aside, to
  \<^verbatim>\<open>path_info[1:]\<close> with the slashes at both ends stripped. The target is \<^verbatim>\<open>/u\<close>
  followed by \<^verbatim>\<open>path_info\<close>, then by \<^verbatim>\<open>?\<close> and the query string under
  \<^verbatim>\<open>iri_to_uri\<close> when \<^verbatim>\<open>request.GET\<close> is not empty. Otherwise the given response
  is returned.\<close>

theorem username_redirect_response:
  assumes "GET request \<noteq> [] \<longrightarrow> META request ''QUERY_STRING'' = Some qs"
  shows "UsernameRedirectionMiddleware_process_response fw d request response =
           (if status_code response = 404
               \<and> \<not> startswith (path_info request) ''/u/''
               \<and> \<not> is_valid_path fw (path_info request)
               \<and> (\<exists>u\<in>set (User_objects d).
                     iexact (username u) (strip (drop 1 (path_info request)) ''/''))
            then (Inr (HttpResponseRedirect
                         (''/u'' @ path_info request
                            @ (if GET request \<noteq> [] then ''?'' @ iri_to_uri fw qs else []))),
                  request, d)
            else (Inr response, request, d))
         \<and> status_code (HttpResponseRedirect url) = 302"
proof
  show "UsernameRedirectionMiddleware_process_response fw d request response =
           (if status_code response = 404
               \<and> \<not> startswith (path_info request) ''/u/''
               \<and> \<not> is_valid_path fw (path_info request)
               \<and> (\<exists>u\<in>set (User_objects d).
                     iexact (username u) (strip (drop 1 (path_info request)) ''/''))
            then (Inr (HttpResponseRedirect
                         (''/u'' @ path_info request
                            @ (if GET request \<noteq> [] then ''?'' @ iri_to_uri fw qs else []))),
                  request, d)
            else (Inr response, request, d))"
    using assms by (rule username_redirect_eq)
  show "status_code (HttpResponseRedirect url) = 302"
    by (simp add: HttpResponseRedirect_def)
qed

theorem username_redirect_response_witness:
  "UsernameRedirectionMiddleware_process_response example_framework example_db
     (example_request ''/en-US'' ''/ALICE'') not_found
     = (Inr (HttpResponseRedirect ''/u/ALICE?q=a%20b''), example_request ''/en-US'' ''/ALICE'',
        example_db)
   \<and> UsernameRedirectionMiddleware_process_response example_framework example_db
     (example_request ''/en-US'' ''/u/alice'') not_found
     = (Inr not_found, example_request ''/en-US'' ''/u/alice'', example_db)
   \<and> UsernameRedirectionMiddleware_process_response example_framework example_db
     (example_request ''/en-US'' ''/bob'') not_found
     = (Inr not_found, example_request ''/en-US'' ''/bob'', example_db)"
  using username_redirect_response
      [where request = "example_request ''/en-US'' ''/ALICE''" and qs = "''q=a b''"
         and fw = example_framework and response = not_found and d = example_db]
    username_redirect_response
      [where request = "example_request ''/en-US'' ''/u/alice''" and qs = "''q=a b''"
         and fw = example_framework and response = not_found and d = example_db]
    username_redirect_response
      [where request = "example_request ''/en-US'' ''/bob''" and qs = "''q=a b''"
         and fw = example_framework and response = not_found and d = example_db]
  by (simp add: example_request_def example_framework_def example_db_def not_found_def
      startswith_def strip_def iexact_def lower_char_def)

text \<open>C5: let the response have status 404 and \<^verbatim>\<open>path_info\<close> be \<^verbatim>\<open>/group/\<close>,
  one or more digits, a hyphen and a non-empty \<open>gurl\<close> without a slash, and let some
  Group have exactly \<open>gurl\<close> as its url. Then the handler of
  OldGroupRedirectionMiddleware returns a redirect, of status 302, to the URL that
  \<^verbatim>\<open>reverse('group', args=[gurl])\<close> resolves to, followed by \<^verbatim>\<open>?\<close> and the query
  string under \<^verbatim>\<open>iri_to_uri\<close> when \<^verbatim>\<open>request.GET\<close> is not empty. When the status is
  not 404, or \<^verbatim>\<open>path_info\<close> has no such form, or no such Group exists, the given
  response is returned.\<close>

theorem old_group_redirect_response:
  assumes "GET request \<noteq> [] \<longrightarrow> META request ''QUERY_STRING'' = Some qs"
  shows "(status_code response = 404
            \<and> path_info request = ''/group/'' @ gid @ ''-'' @ gurl
            \<and> gid \<noteq> [] \<and> (\<forall>c\<in>set gid. isdigit c)
            \<and> gurl \<noteq> [] \<and> CHR ''/'' \<notin> set gurl
            \<and> (\<exists>g\<in>set (Group_objects d). group_url g = gurl)
            \<and> reverse fw ''group'' [gurl] = Inr canonical
          \<longrightarrow> OldGroupRedirectionMiddleware_process_response fw d request response =
                (Inr (HttpResponseRedirect
                        (canonical
                           @ (if GET request \<noteq> [] then ''?'' @ iri_to_uri fw qs else []))),
                 request, d))
         \<and> (\<not> (status_code response = 404
                 \<and> (\<exists>i u. path_info request = ''/group/'' @ i @ ''-'' @ u
                       \<and> i \<noteq> [] \<and> (\<forall>c\<in>set i. isdigit c)
                       \<and> u \<noteq> [] \<and> CHR ''/'' \<notin> set u
                       \<and> (\<exists>g\<in>set (Group_objects d). group_url g = u)))
          \<longrightarrow> OldGroupRedirectionMiddleware_process_response fw d request response =
                (Inr response, request, d))
         \<and> status_code (HttpResponseRedirect url) = 302"
proof (intro conjI impI)
  assume a: "status_code response = 404
            \<and> path_info request = ''/group/'' @ gid @ ''-'' @ gurl
            \<and> gid \<noteq> [] \<and> (\<forall>c\<in>set gid. isdigit c)
            \<and> gurl \<noteq> [] \<and> CHR ''/'' \<notin> set gurl
            \<and> (\<exists>g\<in>set (Group_objects d). group_url g = gurl)
            \<and> reverse fw ''group'' [gurl] = Inr canonical"
  then have "match_old_group (path_info request) = Some (gid, gurl)"
    unfolding match_old_group_iff by blast
  with assms a show "OldGroupRedirectionMiddleware_process_response fw d request response =
                (Inr (HttpResponseRedirect
                        (canonical
                           @ (if GET request \<noteq> [] then ''?'' @ iri_to_uri fw qs else []))),
                 request, d)"
    by (intro old_group_redirects) blast+
next
  assume "\<not> (status_code response = 404
                 \<and> (\<exists>i u. path_info request = ''/group/'' @ i @ ''-'' @ u
                       \<and> i \<noteq> [] \<and> (\<forall>c\<in>set i. isdigit c)
                       \<and> u \<noteq> [] \<and> CHR ''/'' \<notin> set u
                       \<and> (\<exists>g\<in>set (Group_objects d). group_url g = u)))"
  then have "\<not> (status_code response = 404
              \<and> (\<exists>i u. match_old_group (path_info request) = Some (i, u)
                    \<and> (\<exists>g\<in>set (Group_objects d). group_url g = u)))"
    unfolding match_old_group_iff by blast
  then show "OldGroupRedirectionMiddleware_process_response fw d request response =
                (Inr response, request, d)"
    by (rule old_group_passes)
next
  show "status_code (HttpResponseRedirect url) = 302"
    by (simp add: HttpResponseRedirect_def)
qed

theorem old_group_redirect_response_witness:
  "OldGroupRedirectionMiddleware_process_response example_framework example_db
     (example_request ''/en-US'' ''/group/12-webdev'') not_found
     = (Inr (HttpResponseRedirect ''/group/webdev/?q=a%20b''),
        example_request ''/en-US'' ''/group/12-webdev'', example_db)
   \<and> OldGroupRedirectionMiddleware_process_response example_framework example_db
     (example_request ''/en-US'' ''/group/12-webdev'') forbidden
     = (Inr forbidden, example_request ''/en-US'' ''/group/12-webdev'', example_db)"
proof -
  have q: "GET (example_request ''/en-US'' ''/group/12-webdev'') \<noteq> [] \<longrightarrow>
           META (example_request ''/en-US'' ''/group/12-webdev'') ''QUERY_STRING''
             = Some ''q=a b''"
    by (simp add: example_request_def)
  show ?thesis
    using old_group_redirect_response
        [OF q, where response = not_found and gid = "''12''" and gurl = "''webdev''"
           and d = example_db and fw = example_framework
           and canonical = "''/group/webdev/''"]
      old_group_redirect_response
        [OF q, where response = forbidden and d = example_db and fw = example_framework]
    by (simp add: example_request_def example_framework_def example_db_def not_found_def
        forbidden_def isdigit_def)
qed




text \<open>C7: for every request and every block, \<^verbatim>\<open>request.META['QUERY_STRING']\<close> is the
  same after \<^verbatim>\<open>safe_query_string\<close> as before it, whether the block returned or
  raised, and also when the key is missing and the context is never entered. For a
  request with query string \<open>qs\<close>, the block runs on the request whose
  \<^verbatim>\<open>META['QUERY_STRING']\<close> is \<^verbatim>\<open>iri_to_uri(qs)\<close>: a block that reads the entry sees
  that value, and the block of the four redirect handlers appends it to the URL.\<close>

theorem safe_query_string_restores:
  "META (snd (safe_query_string fw request block)) ''QUERY_STRING''
     = META request ''QUERY_STRING''
   \<and> (META request ''QUERY_STRING'' = Some qs \<longrightarrow>
        fst (safe_query_string fw request block)
          = fst (block (request\<lparr>META := (META request)(''QUERY_STRING'' \<mapsto> iri_to_uri fw qs)\<rparr>))
        \<and> safe_query_string fw request (\<lambda>r. (Inr (META r ''QUERY_STRING''), r))
          = (Inr (Some (iri_to_uri fw qs)), request)
        \<and> safe_query_string fw request (add_query_string newurl)
          = (Inr (newurl @ ''?'' @ iri_to_uri fw qs), request))"
proof (intro conjI impI)
  show "META (snd (safe_query_string fw request block)) ''QUERY_STRING''
          = META request ''QUERY_STRING''"
    by (simp add: safe_query_string_def split: option.splits prod.splits)
next
  assume "META request ''QUERY_STRING'' = Some qs"
  then show "fst (safe_query_string fw request block)
          = fst (block (request\<lparr>META := (META request)(''QUERY_STRING'' \<mapsto> iri_to_uri fw qs)\<rparr>))"
    by (simp add: safe_query_string_def split: prod.splits)
next
  assume a: "META request ''QUERY_STRING'' = Some qs"
  then have "(META request)(''QUERY_STRING'' \<mapsto> qs) = META request"
    by (rule map_upd_triv)
  with a show "safe_query_string fw request (\<lambda>r. (Inr (META r ''QUERY_STRING''), r))
          = (Inr (Some (iri_to_uri fw qs)), request)"
    by (simp add: safe_query_string_def)
next
  assume "META request ''QUERY_STRING'' = Some qs"
  then show "safe_query_string fw request (add_query_string newurl)
          = (Inr (newurl @ ''?'' @ iri_to_uri fw qs), request)"
    by (rule safe_query_string_add)
qed

theorem safe_query_string_restores_witness:
  "META (snd (safe_query_string example_framework (example_request ''/en-US'' ''/about/'')
                (\<lambda>r. (Inl NoReverseMatch :: error + string, r\<lparr>META := Map.empty\<rparr>))))
      ''QUERY_STRING'' = Some ''q=a b''
   \<and> fst (safe_query_string example_framework (example_request ''/en-US'' ''/about/'')
                (\<lambda>r. (Inl NoReverseMatch :: error + string, r\<lparr>META := Map.empty\<rparr>)))
     = Inl NoReverseMatch
   \<and> safe_query_string example_framework (example_request ''/en-US'' ''/about/'')
        (\<lambda>r. (Inr (META r ''QUERY_STRING''), r))
     = (Inr (Some ''q=a%20b''), example_request ''/en-US'' ''/about/'')
   \<and> safe_query_string example_framework (example_request ''/en-US'' ''/about/'')
        (add_query_string ''/en-US/about'')
     = (Inr ''/en-US/about?q=a%20b'', example_request ''/en-US'' ''/about/'')"
  using safe_query_string_restores
    [of example_framework "example_request ''/en-US'' ''/about/''"
        "\<lambda>r. (Inl NoReverseMatch :: error + string, r\<lparr>META := Map.empty\<rparr>)"
        "''q=a b''" "''/en-US/about''"]
  by (simp add: example_request_def example_framework_def)

text \<open>C8: no handler changes the User, Group or GroupAlias tables. The three handlers
  that query the database return it as they received it, whatever they return or raise,
  and the queries they run (\<^verbatim>\<open>filter(...).exists()\<close> with a case-insensitive match on
  the username or an exact match on the url, and \<^verbatim>\<open>get\<close> by the exact url) leave it
  as it is. The handlers of PermissionDeniedMiddleware and RemoveSlashMiddleware make no
  query: the database is no argument of theirs.\<close>

theorem handlers_leave_database:
  "snd (snd (UsernameRedirectionMiddleware_process_response fw d request response)) = d
   \<and> snd (snd (OldGroupRedirectionMiddleware_process_response fw d request response)) = d
   \<and> snd (snd (GroupAliasRedirectionMiddleware_process_response fw d request response)) = d
   \<and> snd (qs_exists (User_objects_filter_username_iexact v) d) = d
   \<and> snd (qs_exists (Group_objects_filter_url v) d) = d
   \<and> snd (qs_exists (GroupAlias_objects_filter_url v) d) = d
   \<and> snd (qs_get (GroupAlias_objects_filter_url v) d) = d"
proof -
  have "snd (snd (UsernameRedirectionMiddleware_process_response fw d request response)) = d"
    by (auto simp: UsernameRedirectionMiddleware_process_response_def qs_exists_def Let_def
        split: prod.splits sum.splits bool.splits)
  moreover
  have "snd (snd (OldGroupRedirectionMiddleware_process_response fw d request response)) = d"
    by (auto simp: OldGroupRedirectionMiddleware_process_response_def qs_exists_def
        split: option.splits prod.splits sum.splits bool.splits)
  moreover
  have "snd (snd (GroupAliasRedirectionMiddleware_process_response fw d request response)) = d"
    by (auto simp: GroupAliasRedirectionMiddleware_process_response_def qs_exists_def
        qs_get_def split: option.splits prod.splits sum.splits bool.splits list.splits)
  ultimately show ?thesis
    by (simp add: qs_exists_def qs_get_def split: list.splits)
qed

theorem handlers_leave_database_witness:
  "snd (snd (UsernameRedirectionMiddleware_process_response example_framework example_db
               (example_request ''/en-US'' ''/alice/'') not_found)) = example_db
   \<and> snd (snd (OldGroupRedirectionMiddleware_process_response example_framework example_db
               (example_request ''/en-US'' ''/group/12-webdev'') not_found)) = example_db
   \<and> snd (snd (GroupAliasRedirectionMiddleware_process_response example_framework example_db
               (example_request ''/en-US'' ''/group/web'') not_found)) = example_db"
  using handlers_leave_database
      [where fw = example_framework and d = example_db
         and request = "example_request ''/en-US'' ''/alice/''" and response = not_found]
    handlers_leave_database
      [where fw = example_framework and d = example_db
         and request = "example_request ''/en-US'' ''/group/12-webdev''"
         and response = not_found]
    handlers_leave_database
      [where fw = example_framework and d = example_db
         and request = "example_request ''/en-US'' ''/group/web''" and response = not_found]
  by simp

text \<open>C10: when \<^verbatim>\<open>path_info\<close> ends with a slash and the handler of
  UsernameRedirectionMiddleware redirects, the username was looked up without that slash
  (the key is the same as for \<^verbatim>\<open>path_info\<close> without its last slash, and never ends
  with a slash), but the target is \<^verbatim>\<open>/u\<close> followed by the whole of
  \<^verbatim>\<open>path_info\<close>, trailing slash included: \<^verbatim>\<open>/alice/\<close> is looked up as
  \<^verbatim>\<open>alice\<close> and redirected to \<^verbatim>\<open>/u/alice/\<close>.\<close>

theorem username_redirect_keeps_trailing_slash:
  assumes "GET request \<noteq> [] \<longrightarrow> META request ''QUERY_STRING'' = Some qs"
    and "path_info request = p @ ''/''"
    and "status_code response = 404"
    and "\<not> startswith (path_info request) ''/u/''"
    and "\<not> is_valid_path fw (path_info request)"
    and "\<exists>u\<in>set (User_objects d).
           iexact (username u) (strip (drop 1 (path_info request)) ''/'')"
  shows "fst (UsernameRedirectionMiddleware_process_response fw d request response) =
           Inr (HttpResponseRedirect
                  (''/u'' @ p @ ''/''
                     @ (if GET request \<noteq> [] then ''?'' @ iri_to_uri fw qs else [])))
         \<and> strip (drop 1 (path_info request)) ''/'' = strip (drop 1 p) ''/''
         \<and> \<not> endswith (strip (drop 1 (path_info request)) ''/'') ''/''
         \<and> endswith (''/u'' @ path_info request) ''/''"
proof (intro conjI)
  show "fst (UsernameRedirectionMiddleware_process_response fw d request response) =
           Inr (HttpResponseRedirect
                  (''/u'' @ p @ ''/''
                     @ (if GET request \<noteq> [] then ''?'' @ iri_to_uri fw qs else [])))"
    using assms by (simp add: username_redirect_eq [OF assms(1)] del: append.simps)
  show "strip (drop 1 (path_info request)) ''/'' = strip (drop 1 p) ''/''"
    using assms(2) strip_drop_snoc_slash [of p] by simp
  show "\<not> endswith (strip (drop 1 (path_info request)) ''/'') ''/''"
    by (rule strip_not_endswith)
  show "endswith (''/u'' @ path_info request) ''/''"
    using assms(2) by (simp add: endswith_append)
qed

theorem username_redirect_keeps_trailing_slash_witness:
  "fst (UsernameRedirectionMiddleware_process_response example_framework example_db
          (plain_request ''/en-US'' ''/alice/'') not_found)
     = Inr (HttpResponseRedirect ''/u/alice/'')
   \<and> strip (drop 1 (path_info (plain_request ''/en-US'' ''/alice/''))) ''/'' = ''alice''"
proof -
  let ?r = "plain_request ''/en-US'' ''/alice/''"
  have q: "GET ?r \<noteq> [] \<longrightarrow> META ?r ''QUERY_STRING'' = Some []"
    by (simp add: plain_request_def)
  have p: "path_info ?r = ''/alice'' @ ''/''"
    by (simp add: plain_request_def)
  have s: "status_code not_found = 404"
    by (simp add: not_found_def)
  have n: "\<not> startswith (path_info ?r) ''/u/''"
    by (simp add: plain_request_def startswith_def)
  have v: "\<not> is_valid_path example_framework (path_info ?r)"
    by (simp add: plain_request_def example_framework_def)
  have u: "\<exists>u\<in>set (User_objects example_db).
             iexact (username u) (strip (drop 1 (path_info ?r)) ''/'')"
    by (simp add: plain_request_def example_db_def strip_def iexact_def lower_char_def)
  show ?thesis
    using username_redirect_keeps_trailing_slash [OF q p s n v u]
    by (simp add: plain_request_def strip_def)
qed

end
